theory Spec2Isabelle
  imports Complex_Main "HOL-Library.Word" "HOL-Library.AList"
begin

section \<open>JavaScript values\<close>

text \<open>
  The server is TypeScript run by Node; \<^verbatim>\<open>processCodePlanning\<close> takes an
  \<^verbatim>\<open>unknown\<close> and casts it, so what it computes is decided by the run-time value.
  A JavaScript string is a sequence of UTF-16 code units and \<^verbatim>\<open>.length\<close> counts
  them; ASCII literals of the source are written with \<open>str\<close>.
\<close>

type_synonym jsstring = "16 word list"

definition str :: "string \<Rightarrow> jsstring" where
  "str s = map of_char s"

text \<open>
  A Number is NaN, an infinity or a finite value. Finite doubles are rationals, so
  \<open>Fin\<close> ranges over a superset of them; both zeros are \<open>Fin 0\<close> (the source never
  tells them apart).
\<close>

datatype jsnum = NaN | NegInf | Fin rat | PosInf

text \<open>The relational operators: every comparison with NaN is false.\<close>

fun js_lt :: "jsnum \<Rightarrow> jsnum \<Rightarrow> bool" where
  "js_lt (Fin a) (Fin b) = (a < b)"
| "js_lt NegInf (Fin b) = True"
| "js_lt NegInf PosInf = True"
| "js_lt (Fin a) PosInf = True"
| "js_lt _ _ = False"

definition js_gt :: "jsnum \<Rightarrow> jsnum \<Rightarrow> bool" where
  "js_gt a b = js_lt b a"

definition js_le :: "jsnum \<Rightarrow> jsnum \<Rightarrow> bool" where
  "js_le a b = (a \<noteq> NaN \<and> b \<noteq> NaN \<and> \<not> js_lt b a)"

definition js_ge :: "jsnum \<Rightarrow> jsnum \<Rightarrow> bool" where
  "js_ge a b = (a \<noteq> NaN \<and> b \<noteq> NaN \<and> \<not> js_lt a b)"

text \<open>
  The values a request can carry: what \<^verbatim>\<open>JSON.parse\<close> builds, and \<^verbatim>\<open>undefined\<close>
  for a field the caller left out. An object is the list of its own properties; the
  first binding of a key is the property's value.
\<close>

datatype jsval =
    JUndefined
  | JNull
  | JBool bool
  | JNum jsnum
  | JStr jsstring
  | JArr "jsval list"
  | JObj "(jsstring \<times> jsval) list"

datatype jstype = TUndefined | TObject | TBoolean | TNumber | TString

fun typeof :: "jsval \<Rightarrow> jstype" where
  "typeof JUndefined = TUndefined"
| "typeof JNull = TObject"
| "typeof (JBool b) = TBoolean"
| "typeof (JNum n) = TNumber"
| "typeof (JStr s) = TString"
| "typeof (JArr xs) = TObject"
| "typeof (JObj kvs) = TObject"

text \<open>ToBoolean, as \<^verbatim>\<open>!x\<close>, \<^verbatim>\<open>&&\<close> and \<^verbatim>\<open>if (x)\<close> apply it.\<close>

fun truthy :: "jsval \<Rightarrow> bool" where
  "truthy JUndefined = False"
| "truthy JNull = False"
| "truthy (JBool b) = b"
| "truthy (JNum n) = (n \<noteq> NaN \<and> n \<noteq> Fin 0)"
| "truthy (JStr s) = (s \<noteq> [])"
| "truthy (JArr xs) = True"
| "truthy (JObj kvs) = True"

text \<open>
  Exceptions. \<open>Error m\<close> is \<^verbatim>\<open>throw new Error(m)\<close>; a \<open>TypeError\<close> is raised by the
  engine, and its message text is the engine's own, kept symbolic.
\<close>

datatype fault = ReadOfNullish | NotAFunction | NotPrimitive

datatype exn = Error jsstring | TypeError fault

datatype message = Text jsstring | EngineText fault

fun message_of :: "exn \<Rightarrow> message" where
  "message_of (Error m) = Text m"
| "message_of (TypeError f) = EngineText f"

text \<open>
  \<^verbatim>\<open>data.name\<close> for a value that is neither \<^verbatim>\<open>undefined\<close> nor \<^verbatim>\<open>null\<close>, and for
  the nine field names the source reads: none of them is a property of a prototype, so
  the read gives an object's own property and \<^verbatim>\<open>undefined\<close> otherwise.
\<close>

fun member :: "jsval \<Rightarrow> string \<Rightarrow> jsval" where
  "member (JObj kvs) name = (case map_of kvs (str name) of None \<Rightarrow> JUndefined | Some v \<Rightarrow> v)"
| "member _ name = JUndefined"

fun asString :: "jsval \<Rightarrow> jsstring" where
  "asString (JStr s) = s"
| "asString _ = []"

fun asNumber :: "jsval \<Rightarrow> jsnum" where
  "asNumber (JNum n) = n"
| "asNumber _ = NaN"

fun asBoolean :: "jsval \<Rightarrow> bool" where
  "asBoolean (JBool b) = b"
| "asBoolean _ = False"

text \<open>
  ToString, as a template literal and a computed property key apply it. The rendering
  of a Number is the builtin \<^verbatim>\<open>Number::toString\<close>, a parameter here. An array is
  joined with commas, \<^verbatim>\<open>undefined\<close> and \<^verbatim>\<open>null\<close> elements rendering empty. An
  object without an own \<^verbatim>\<open>toString\<close> inherits the one of \<^verbatim>\<open>Object.prototype\<close>; an
  own \<^verbatim>\<open>toString\<close> is data, not callable, \<^verbatim>\<open>valueOf\<close> then gives no primitive, and
  the conversion throws.
\<close>

fun joinWith :: "jsstring \<Rightarrow> jsstring list \<Rightarrow> jsstring" where
  "joinWith sep [] = []"
| "joinWith sep [s] = s"
| "joinWith sep (s # t # ss) = s @ sep @ joinWith sep (t # ss)"

fun toStr :: "(jsnum \<Rightarrow> jsstring) \<Rightarrow> jsval \<Rightarrow> exn + jsstring"
  and elemStrs :: "(jsnum \<Rightarrow> jsstring) \<Rightarrow> jsval list \<Rightarrow> exn + jsstring list" where
  "toStr nts JUndefined = Inr (str ''undefined'')"
| "toStr nts JNull = Inr (str ''null'')"
| "toStr nts (JBool b) = Inr (if b then str ''true'' else str ''false'')"
| "toStr nts (JNum n) = Inr (nts n)"
| "toStr nts (JStr s) = Inr s"
| "toStr nts (JArr xs) =
     (case elemStrs nts xs of Inl e \<Rightarrow> Inl e | Inr ss \<Rightarrow> Inr (joinWith (str '','') ss))"
| "toStr nts (JObj kvs) =
     (if str ''toString'' \<in> set (map fst kvs) then Inl (TypeError NotPrimitive)
      else Inr (str ''[object Object]''))"
| "elemStrs nts [] = Inr []"
| "elemStrs nts (x # xs) =
     (case (if x = JUndefined \<or> x = JNull then Inr [] else toStr nts x) of
        Inl e \<Rightarrow> Inl e
      | Inr s \<Rightarrow> (case elemStrs nts xs of Inl e \<Rightarrow> Inl e | Inr ss \<Rightarrow> Inr (s # ss)))"

section \<open>The planning server\<close>

text \<open>The interface \<^verbatim>\<open>CodePlanningData\<close>. The optional fields are cast from the
  input unchecked, so they hold whatever value the caller sent.\<close>

record CodePlanningData =
  codeReflection :: jsstring
  stepNumber :: jsnum
  totalSteps :: jsnum
  isRevision :: jsval
  revisesStep :: jsval
  branchFromStep :: jsval
  branchId :: jsval
  needsMoreSteps :: jsval
  nextStepNeeded :: bool

text \<open>The class \<^verbatim>\<open>CleanCodePlanningServer\<close>: its two private fields. \<open>branches\<close>
  lists the own properties of the object in creation order.\<close>

record CleanCodePlanningServer =
  reflectionHistory :: "CodePlanningData list"
  branches :: "(jsstring \<times> CodePlanningData list) list"

definition initialServer :: CleanCodePlanningServer where
  "initialServer = \<lparr>reflectionHistory = [], branches = []\<rparr>"

text \<open>What the class takes from outside: \<^verbatim>\<open>Number::toString\<close>, the three chalk
  colours and \<^verbatim>\<open>console.error\<close> (\<open>None\<close> when it returns, \<open>Some e\<close> when it throws
  \<open>e\<close>).\<close>

record env =
  numberToString :: "jsnum \<Rightarrow> jsstring"
  chalk_yellow :: "jsstring \<Rightarrow> jsstring"
  chalk_green :: "jsstring \<Rightarrow> jsstring"
  chalk_blue :: "jsstring \<Rightarrow> jsstring"
  console_error :: "jsstring \<Rightarrow> exn option"

subsection \<open>validateCodePlanningData\<close>

definition validateCodePlanningData :: "jsval \<Rightarrow> exn + CodePlanningData" where
  "validateCodePlanningData dat =
    (if dat = JUndefined \<or> dat = JNull then Inl (TypeError ReadOfNullish)
     else if \<not> truthy (member dat ''codeReflection'')
           \<or> typeof (member dat ''codeReflection'') \<noteq> TString
       then Inl (Error (str ''Invalid codeReflection: must be a string''))
     else if \<not> truthy (member dat ''stepNumber'')
           \<or> typeof (member dat ''stepNumber'') \<noteq> TNumber
       then Inl (Error (str ''Invalid stepNumber: must be a number''))
     else if \<not> truthy (member dat ''totalSteps'')
           \<or> typeof (member dat ''totalSteps'') \<noteq> TNumber
       then Inl (Error (str ''Invalid totalSteps: must be a number''))
     else if typeof (member dat ''nextStepNeeded'') \<noteq> TBoolean
       then Inl (Error (str ''Invalid nextStepNeeded: must be a boolean''))
     else Inr \<lparr>codeReflection = asString (member dat ''codeReflection''),
               stepNumber = asNumber (member dat ''stepNumber''),
               totalSteps = asNumber (member dat ''totalSteps''),
               isRevision = member dat ''isRevision'',
               revisesStep = member dat ''revisesStep'',
               branchFromStep = member dat ''branchFromStep'',
               branchId = member dat ''branchId'',
               needsMoreSteps = member dat ''needsMoreSteps'',
               nextStepNeeded = asBoolean (member dat ''nextStepNeeded'')\<rparr>)"

subsection \<open>formatCodeReflection\<close>

definition padEnd :: "jsstring \<Rightarrow> nat \<Rightarrow> jsstring" where
  "padEnd s n = s @ replicate (n - length s) 0x20"

text \<open>The prefix and the context of lines 69 to 81. The string literals start with
  an emoji, two code units each:
  U+1F504 before \<^verbatim>\<open>Revision\<close>, U+1F33F before \<^verbatim>\<open>Alternative\<close>, U+1F9E9 before
  \<^verbatim>\<open>Code Step\<close>.\<close>

definition prefixAndContext :: "env \<Rightarrow> CodePlanningData \<Rightarrow> exn + jsstring \<times> jsstring" where
  "prefixAndContext env reflectionData =
    (if truthy (isRevision reflectionData) then
       (case toStr (numberToString env) (revisesStep reflectionData) of
          Inl e \<Rightarrow> Inl e
        | Inr r \<Rightarrow>
            Inr (chalk_yellow env ([0xD83D, 0xDD04] @ str '' Revision''),
                 str '' (revising step '' @ r @ str '')''))
     else if truthy (branchFromStep reflectionData) then
       (case toStr (numberToString env) (branchFromStep reflectionData) of
          Inl e \<Rightarrow> Inl e
        | Inr f \<Rightarrow>
            (case toStr (numberToString env) (branchId reflectionData) of
               Inl e \<Rightarrow> Inl e
             | Inr b \<Rightarrow>
                 Inr (chalk_green env ([0xD83C, 0xDF3F] @ str '' Alternative''),
                      str '' (from step '' @ f @ str '', ID: '' @ b @ str '')'')))
     else Inr (chalk_blue env ([0xD83E, 0xDDE9] @ str '' Code Step''), []))"

text \<open>Lines 84 to 93: the border and the template. U+2500 is the horizontal line,
  the other code units above 0x20 are the corners, the tees and the vertical line.
  Strings are lists of any length: the engine's limit on the length of a string, which
  \<^verbatim>\<open>repeat\<close> would hit on a reflection of hundreds of millions of code units, is not
  modelled.\<close>

definition frame :: "jsstring \<Rightarrow> jsstring \<Rightarrow> jsstring" where
  "frame header reflection =
    (let border = replicate (max (length header) (length reflection) + 4) 0x2500
     in [0x0A, 0x250C] @ border @ [0x2510, 0x0A,
         0x2502, 0x20] @ header @ [0x20, 0x2502, 0x0A,
         0x251C] @ border @ [0x2524, 0x0A,
         0x2502, 0x20] @ padEnd reflection (length border - 2) @ [0x20, 0x2502, 0x0A,
         0x2514] @ border @ [0x2518])"

definition formatCodeReflection :: "env \<Rightarrow> CodePlanningData \<Rightarrow> exn + jsstring" where
  "formatCodeReflection env reflectionData =
    (case prefixAndContext env reflectionData of
       Inl e \<Rightarrow> Inl e
     | Inr (prefix, context) \<Rightarrow>
         let header = prefix @ str '' '' @ numberToString env (stepNumber reflectionData)
                        @ str ''/'' @ numberToString env (totalSteps reflectionData) @ context
         in Inr (frame header (codeReflection reflectionData)))"

subsection \<open>processCodePlanning\<close>

text \<open>
  \<open>branches\<close> is created by the literal \<^verbatim>\<open>{}\<close>, so a read of \<^verbatim>\<open>this.branches[k]\<close>
  that finds no own property goes on to \<^verbatim>\<open>Object.prototype\<close>. The properties there
  are functions, and \<^verbatim>\<open>__proto__\<close> gives the prototype object: all truthy, none
  with a \<^verbatim>\<open>push\<close>.
\<close>

definition objectPrototypeNames :: "jsstring list" where
  "objectPrototypeNames = map str
     [''constructor'', ''__defineGetter__'', ''__defineSetter__'', ''hasOwnProperty'',
      ''__lookupGetter__'', ''__lookupSetter__'', ''isPrototypeOf'', ''propertyIsEnumerable'',
      ''toString'', ''valueOf'', ''__proto__'', ''toLocaleString'']"

datatype 'a lookup = Own 'a | Inherited | Absent

definition branchesGet :: "(jsstring \<times> 'a) list \<Rightarrow> jsstring \<Rightarrow> 'a lookup" where
  "branchesGet own k =
    (case map_of own k of
       Some xs \<Rightarrow> Own xs
     | None \<Rightarrow> if k \<in> set objectPrototypeNames then Inherited else Absent)"

text \<open>Lines 109 to 114. The key is the branch id converted to a property key; an
  own property holds an array, which is truthy even when empty.\<close>

definition registerBranch ::
  "env \<Rightarrow> CleanCodePlanningServer \<Rightarrow> CodePlanningData \<Rightarrow> exn + CleanCodePlanningServer" where
  "registerBranch env this validatedInput =
    (if truthy (branchFromStep validatedInput) \<and> truthy (branchId validatedInput) then
       (case toStr (numberToString env) (branchId validatedInput) of
          Inl e \<Rightarrow> Inl e
        | Inr k \<Rightarrow>
            let created = (case branchesGet (branches this) k of
                             Absent \<Rightarrow> AList.update k [] (branches this)
                           | _ \<Rightarrow> branches this)
            in (case branchesGet created k of
                  Own xs \<Rightarrow> Inr (this\<lparr>branches := AList.update k (xs @ [validatedInput]) created\<rparr>)
                | _ \<Rightarrow> Inl (TypeError NotAFunction)))
     else Inr this)"

text \<open>
  \<^verbatim>\<open>Object.keys\<close>: the own keys that are array indices (canonical decimal numerals
  below \<open>2^32 - 1\<close>) in ascending numeric order, then the other keys in creation order.
\<close>

fun parseDigits :: "nat \<Rightarrow> jsstring \<Rightarrow> nat option" where
  "parseDigits acc [] = Some acc"
| "parseDigits acc (c # cs) =
     (if 0x30 \<le> c \<and> c \<le> 0x39 then parseDigits (10 * acc + (unat c - 48)) cs else None)"

definition arrayIndex :: "jsstring \<Rightarrow> nat option" where
  "arrayIndex s =
    (if s = [] \<or> (hd s = 0x30 \<and> length s > 1) then None
     else case parseDigits 0 s of
            None \<Rightarrow> None
          | Some n \<Rightarrow> if n < 2 ^ 32 - 1 then Some n else None)"

definition Object_keys :: "(jsstring \<times> 'a) list \<Rightarrow> jsstring list" where
  "Object_keys own =
    sort_key (\<lambda>k. the (arrayIndex k)) (filter (\<lambda>k. arrayIndex k \<noteq> None) (map fst own))
      @ filter (\<lambda>k. arrayIndex k = None) (map fst own)"

text \<open>
  The value returned. \<open>content\<close> stands for the one text block of the source: it is
  the object handed to \<^verbatim>\<open>JSON.stringify\<close>, whose serialisation is not modelled.
  \<open>isError\<close> is absent from a success.
\<close>

record successJson =
  res_stepNumber :: jsnum
  res_totalSteps :: jsnum
  res_nextStepNeeded :: bool
  res_branches :: "jsstring list"
  res_reflectionHistoryLength :: nat

record errorJson =
  error :: message
  status :: jsstring

datatype json = SuccessJson successJson | ErrorJson errorJson

record toolResult =
  content :: json
  isError :: "bool option"

definition errorResult :: "exn \<Rightarrow> toolResult" where
  "errorResult e =
    \<lparr>content = ErrorJson \<lparr>error = message_of e, status = str ''failed''\<rparr>,
     isError = Some True\<rparr>"

definition successResult :: "CleanCodePlanningServer \<Rightarrow> CodePlanningData \<Rightarrow> toolResult" where
  "successResult this validatedInput =
    \<lparr>content = SuccessJson
        \<lparr>res_stepNumber = stepNumber validatedInput,
         res_totalSteps = totalSteps validatedInput,
         res_nextStepNeeded = nextStepNeeded validatedInput,
         res_branches = Object_keys (branches this),
         res_reflectionHistoryLength = length (reflectionHistory this)\<rparr>,
     isError = None\<rparr>"

text \<open>Lines 103 to 105: the estimate is raised to the step number.\<close>

definition adjustTotal :: "CodePlanningData \<Rightarrow> CodePlanningData" where
  "adjustTotal v =
    (if js_gt (stepNumber v) (totalSteps v) then v\<lparr>totalSteps := stepNumber v\<rparr> else v)"

text \<open>
  The whole method: one \<^verbatim>\<open>try\<close> around validation, the two pushes, the rendering
  and its emission; the \<^verbatim>\<open>catch\<close> turns whatever was thrown into an error result.
  The server's fields keep what was written before the throw.
\<close>

definition processCodePlanning ::
  "env \<Rightarrow> CleanCodePlanningServer \<Rightarrow> jsval \<Rightarrow> toolResult \<times> CleanCodePlanningServer" where
  "processCodePlanning env this input =
    (case validateCodePlanningData input of
       Inl e \<Rightarrow> (errorResult e, this)
     | Inr validated \<Rightarrow>
         let validatedInput = adjustTotal validated;
             pushed = this\<lparr>reflectionHistory := reflectionHistory this @ [validatedInput]\<rparr>
         in (case registerBranch env pushed validatedInput of
               Inl e \<Rightarrow> (errorResult e, pushed)
             | Inr branched \<Rightarrow>
                 (case formatCodeReflection env validatedInput of
                    Inl e \<Rightarrow> (errorResult e, branched)
                  | Inr formattedReflection \<Rightarrow>
                      (case console_error env formattedReflection of
                         Some e \<Rightarrow> (errorResult e, branched)
                       | None \<Rightarrow> (successResult branched validatedInput, branched)))))"

text \<open>A session: the calls of a list of inputs, one after the other.\<close>

fun processAll ::
  "env \<Rightarrow> CleanCodePlanningServer \<Rightarrow> jsval list \<Rightarrow> CleanCodePlanningServer" where
  "processAll env this [] = this"
| "processAll env this (input # inputs) =
     processAll env (snd (processCodePlanning env this input)) inputs"

subsection \<open>An environment to run the server in\<close>

text \<open>
  A terminal without colour support (chalk returns its argument) and a
  \<^verbatim>\<open>console.error\<close> that returns. \<open>decimalNumber\<close> is \<^verbatim>\<open>Number::toString\<close> on
  NaN, the infinities and the integers of magnitude below \<open>10^21\<close>. On any other
  number it is not the builtin (it drops the fraction and never writes an exponent);
  the examples render 1, 2 and 3 only, and every general theorem takes the rendering
  as the parameter \<open>numberToString\<close>.
\<close>

fun digits :: "nat \<Rightarrow> jsstring" where
  "digits n = (if n < 10 then [of_nat (48 + n)] else digits (n div 10) @ [of_nat (48 + n mod 10)])"

declare digits.simps [simp del]

fun decimalNumber :: "jsnum \<Rightarrow> jsstring" where
  "decimalNumber NaN = str ''NaN''"
| "decimalNumber PosInf = str ''Infinity''"
| "decimalNumber NegInf = str ''-Infinity''"
| "decimalNumber (Fin q) = (if q < 0 then str ''-'' else []) @ digits (nat \<lfloor>\<bar>q\<bar>\<rfloor>)"

definition plainEnv :: env where
  "plainEnv =
    \<lparr>numberToString = decimalNumber,
     chalk_yellow = (\<lambda>s. s), chalk_green = (\<lambda>s. s), chalk_blue = (\<lambda>s. s),
     console_error = (\<lambda>s. None)\<rparr>"

text \<open>A terminal with colours: chalk wraps its argument in the ANSI escape sequences
  of the colour.\<close>

definition ansi :: "string \<Rightarrow> jsstring \<Rightarrow> jsstring" where
  "ansi code s = [0x1B] @ str (''['' @ code @ ''m'') @ s @ [0x1B] @ str ''[39m''"

definition ansiEnv :: env where
  "ansiEnv =
    \<lparr>numberToString = decimalNumber,
     chalk_yellow = ansi ''33'', chalk_green = ansi ''32'', chalk_blue = ansi ''34'',
     console_error = (\<lambda>s. None)\<rparr>"

section \<open>The specification's side\<close>

text \<open>The four messages of \<^verbatim>\<open>validateCodePlanningData\<close>, in the order of its checks.\<close>

definition validationMessages :: "jsstring list" where
  "validationMessages = map str
     [''Invalid codeReflection: must be a string'', ''Invalid stepNumber: must be a number'',
      ''Invalid totalSteps: must be a number'', ''Invalid nextStepNeeded: must be a boolean'']"

text \<open>
  The specification's reading of validation: each required field has a check of its
  own, and \<open>failingChecks\<close> lists the messages of the checks an input fails, in the
  fixed order reflection, step number, total steps, next step needed.
\<close>

definition reflectionOk :: "jsval \<Rightarrow> bool" where
  "reflectionOk input \<longleftrightarrow>
     truthy (member input ''codeReflection'') \<and> typeof (member input ''codeReflection'') = TString"

definition stepNumberOk :: "jsval \<Rightarrow> bool" where
  "stepNumberOk input \<longleftrightarrow>
     truthy (member input ''stepNumber'') \<and> typeof (member input ''stepNumber'') = TNumber"

definition totalStepsOk :: "jsval \<Rightarrow> bool" where
  "totalStepsOk input \<longleftrightarrow>
     truthy (member input ''totalSteps'') \<and> typeof (member input ''totalSteps'') = TNumber"

definition nextStepNeededOk :: "jsval \<Rightarrow> bool" where
  "nextStepNeededOk input \<longleftrightarrow> typeof (member input ''nextStepNeeded'') = TBoolean"

definition failingChecks :: "jsval \<Rightarrow> jsstring list" where
  "failingChecks input =
    (if reflectionOk input then [] else [str ''Invalid codeReflection: must be a string''])
    @ (if stepNumberOk input then [] else [str ''Invalid stepNumber: must be a number''])
    @ (if totalStepsOk input then [] else [str ''Invalid totalSteps: must be a number''])
    @ (if nextStepNeededOk input then [] else [str ''Invalid nextStepNeeded: must be a boolean''])"

text \<open>
  The rendering as the specification words it: the label is the bare word, chosen by
  \<^verbatim>\<open>isRevision\<close> being true, else by a truthy \<^verbatim>\<open>branchFromStep\<close>; the suffix
  interpolates the fields.
\<close>

definition interpolated :: "(jsnum \<Rightarrow> jsstring) \<Rightarrow> jsval \<Rightarrow> jsstring" where
  "interpolated nts x = (case toStr nts x of Inl e \<Rightarrow> [] | Inr s \<Rightarrow> s)"

definition claimedLabel :: "CodePlanningData \<Rightarrow> jsstring" where
  "claimedLabel d =
    (if isRevision d = JBool True then str ''Revision''
     else if truthy (branchFromStep d) then str ''Alternative''
     else str ''Code Step'')"

definition claimedSuffix :: "(jsnum \<Rightarrow> jsstring) \<Rightarrow> CodePlanningData \<Rightarrow> jsstring" where
  "claimedSuffix nts d =
    (if isRevision d = JBool True then
       str '' (revising step '' @ interpolated nts (revisesStep d) @ str '')''
     else if truthy (branchFromStep d) then
       str '' (from step '' @ interpolated nts (branchFromStep d) @ str '', ID: ''
         @ interpolated nts (branchId d) @ str '')''
     else [])"

definition claimedHeader :: "(jsnum \<Rightarrow> jsstring) \<Rightarrow> CodePlanningData \<Rightarrow> jsstring" where
  "claimedHeader nts d =
    claimedLabel d @ str '' '' @ nts (stepNumber d) @ str ''/'' @ nts (totalSteps d)
      @ claimedSuffix nts d"

text \<open>
  The rendering the source computes, case by case: the label carries the emoji of the
  string literal and goes through chalk, the choice is by truthiness, and a suffix
  exists when its interpolated fields convert to strings.
\<close>

definition renderedLabel :: "env \<Rightarrow> CodePlanningData \<Rightarrow> jsstring" where
  "renderedLabel env d =
    (if truthy (isRevision d) then chalk_yellow env ([0xD83D, 0xDD04] @ str '' Revision'')
     else if truthy (branchFromStep d) then chalk_green env ([0xD83C, 0xDF3F] @ str '' Alternative'')
     else chalk_blue env ([0xD83E, 0xDDE9] @ str '' Code Step''))"

definition renderedSuffix :: "env \<Rightarrow> CodePlanningData \<Rightarrow> exn + jsstring" where
  "renderedSuffix env d =
    (if truthy (isRevision d) then
       (case toStr (numberToString env) (revisesStep d) of
          Inl e \<Rightarrow> Inl e
        | Inr r \<Rightarrow> Inr (str '' (revising step '' @ r @ str '')''))
     else if truthy (branchFromStep d) then
       (case toStr (numberToString env) (branchFromStep d) of
          Inl e \<Rightarrow> Inl e
        | Inr f \<Rightarrow>
            (case toStr (numberToString env) (branchId d) of
               Inl e \<Rightarrow> Inl e
             | Inr b \<Rightarrow> Inr (str '' (from step '' @ f @ str '', ID: '' @ b @ str '')'')))
     else Inr [])"

text \<open>A box of a given border width: five lines, each after a line feed.\<close>

definition box :: "nat \<Rightarrow> jsstring \<Rightarrow> jsstring \<Rightarrow> jsstring" where
  "box width header reflection =
    [0x0A] @ [0x250C] @ replicate width 0x2500 @ [0x2510]
    @ [0x0A] @ [0x2502, 0x20] @ header @ [0x20, 0x2502]
    @ [0x0A] @ [0x251C] @ replicate width 0x2500 @ [0x2524]
    @ [0x0A] @ [0x2502, 0x20] @ reflection @ replicate (width - 2 - length reflection) 0x20
        @ [0x20, 0x2502]
    @ [0x0A] @ [0x2514] @ replicate width 0x2500 @ [0x2518]"

section \<open>Example requests\<close>

text \<open>The three calls of the specification's scenario, as the request handler hands
  them to \<^verbatim>\<open>processCodePlanning\<close>: it renames the fields of the request
  (\<^verbatim>\<open>thought\<close> to \<^verbatim>\<open>codeReflection\<close>, \<^verbatim>\<open>thoughtNumber\<close> to \<^verbatim>\<open>stepNumber\<close>, and
  so on) and passes the values on as they are; a field the request lacks is
  \<^verbatim>\<open>undefined\<close>, which reads the same as a property that is not there.\<close>

definition callOne :: jsval where
  "callOne = JObj
     [(str ''codeReflection'', JStr (str ''Design module layout'')),
      (str ''stepNumber'', JNum (Fin 1)), (str ''totalSteps'', JNum (Fin 3)),
      (str ''nextStepNeeded'', JBool True)]"

definition callTwo :: jsval where
  "callTwo = JObj
     [(str ''codeReflection'', JStr (str ''Add retry logic'')),
      (str ''stepNumber'', JNum (Fin 2)), (str ''totalSteps'', JNum (Fin 3)),
      (str ''nextStepNeeded'', JBool True),
      (str ''branchFromStep'', JNum (Fin 1)), (str ''branchId'', JStr (str ''retry-strategy''))]"

definition callThree :: jsval where
  "callThree = JObj
     [(str ''codeReflection'', JStr (str ''Revisit step 1'')),
      (str ''stepNumber'', JNum (Fin 2)), (str ''totalSteps'', JNum (Fin 1)),
      (str ''nextStepNeeded'', JBool True),
      (str ''isRevision'', JBool True), (str ''revisesStep'', JNum (Fin 1))]"

text \<open>Requests that fail validation.\<close>

definition emptyReflection :: jsval where
  "emptyReflection = JObj
     [(str ''codeReflection'', JStr []),
      (str ''stepNumber'', JNum (Fin 1)), (str ''totalSteps'', JNum (Fin 3)),
      (str ''nextStepNeeded'', JBool True)]"

definition zeroStep :: jsval where
  "zeroStep = JObj
     [(str ''codeReflection'', JStr (str ''Design module layout'')),
      (str ''stepNumber'', JNum (Fin 0)), (str ''totalSteps'', JNum (Fin 3)),
      (str ''nextStepNeeded'', JBool True)]"

definition missingStep :: jsval where
  "missingStep = JObj
     [(str ''codeReflection'', JStr (str ''Design module layout'')),
      (str ''totalSteps'', JNum (Fin 3)), (str ''nextStepNeeded'', JBool True)]"

definition zeroTotal :: jsval where
  "zeroTotal = JObj
     [(str ''codeReflection'', JStr (str ''Design module layout'')),
      (str ''stepNumber'', JNum (Fin 1)), (str ''totalSteps'', JNum (Fin 0)),
      (str ''nextStepNeeded'', JBool True)]"

definition missingTotal :: jsval where
  "missingTotal = JObj
     [(str ''codeReflection'', JStr (str ''Design module layout'')),
      (str ''stepNumber'', JNum (Fin 1)), (str ''nextStepNeeded'', JBool True)]"

text \<open>Requests that fail more than one check: a step number of 0 and nothing else,
  and a reflection with 0 for both numbers.\<close>

definition zeroStepOnly :: jsval where
  "zeroStepOnly = JObj [(str ''stepNumber'', JNum (Fin 0))]"

definition zeroStepZeroTotal :: jsval where
  "zeroStepZeroTotal = JObj
     [(str ''codeReflection'', JStr (str ''Design module layout'')),
      (str ''stepNumber'', JNum (Fin 0)), (str ''totalSteps'', JNum (Fin 0)),
      (str ''nextStepNeeded'', JBool True)]"

text \<open>A branch whose id is the name of a property of \<^verbatim>\<open>Object.prototype\<close>, and a
  revision whose \<^verbatim>\<open>revisesStep\<close> is the object \<^verbatim>\<open>{"toString": 1}\<close>.\<close>

definition callConstructor :: jsval where
  "callConstructor = JObj
     [(str ''codeReflection'', JStr (str ''Add retry logic'')),
      (str ''stepNumber'', JNum (Fin 2)), (str ''totalSteps'', JNum (Fin 3)),
      (str ''nextStepNeeded'', JBool True),
      (str ''branchFromStep'', JNum (Fin 1)), (str ''branchId'', JStr (str ''constructor''))]"

definition callOpaqueRevision :: jsval where
  "callOpaqueRevision = JObj
     [(str ''codeReflection'', JStr (str ''Revisit step 1'')),
      (str ''stepNumber'', JNum (Fin 2)), (str ''totalSteps'', JNum (Fin 3)),
      (str ''nextStepNeeded'', JBool True),
      (str ''isRevision'', JBool True),
      (str ''revisesStep'', JObj [(str ''toString'', JNum (Fin 1))])]"

text \<open>The steps that the example requests validate to, after the adjustment of the
  total.\<close>

definition revisionStep :: CodePlanningData where
  "revisionStep =
    \<lparr>codeReflection = str ''Revisit step 1'', stepNumber = Fin 2, totalSteps = Fin 2,
     isRevision = JBool True, revisesStep = JNum (Fin 1), branchFromStep = JUndefined,
     branchId = JUndefined, needsMoreSteps = JUndefined, nextStepNeeded = True\<rparr>"

definition constructorStep :: CodePlanningData where
  "constructorStep =
    \<lparr>codeReflection = str ''Add retry logic'', stepNumber = Fin 2, totalSteps = Fin 3,
     isRevision = JUndefined, revisesStep = JUndefined, branchFromStep = JNum (Fin 1),
     branchId = JStr (str ''constructor''), needsMoreSteps = JUndefined,
     nextStepNeeded = True\<rparr>"

definition opaqueRevisionStep :: CodePlanningData where
  "opaqueRevisionStep =
    \<lparr>codeReflection = str ''Revisit step 1'', stepNumber = Fin 2, totalSteps = Fin 3,
     isRevision = JBool True, revisesStep = JObj [(str ''toString'', JNum (Fin 1))],
     branchFromStep = JUndefined, branchId = JUndefined, needsMoreSteps = JUndefined,
     nextStepNeeded = True\<rparr>"

section \<open>Basic facts\<close>

lemma str_eq_iff [simp]: "str a = str b \<longleftrightarrow> a = b"
proof -
  have inj: "inj (of_char :: char \<Rightarrow> 16 word)"
  proof (rule injI)
    fix c d :: char
    assume "(of_char c :: 16 word) = of_char d"
    then have "(of_nat (of_char c) :: 16 word) = of_nat (of_char d)"
      by (simp add: of_nat_of_char)
    moreover have "(of_char c :: nat) < 2 ^ 16"
      by (rule less_trans [OF nat_of_char_less_256]) simp
    moreover have "(of_char d :: nat) < 2 ^ 16"
      by (rule less_trans [OF nat_of_char_less_256]) simp
    ultimately have "(of_char c :: nat) = of_char d"
      by (simp add: word_of_nat_eq_iff take_bit_nat_eq_self)
    then show "c = d" by simp
  qed
  show ?thesis
    unfolding str_def by (simp add: inj_map_eq_map [OF inj])
qed

lemma str_Nil_iff [simp]: "str s = [] \<longleftrightarrow> s = []" "[] = str s \<longleftrightarrow> s = []"
  by (auto simp: str_def)

lemma length_str [simp]: "length (str s) = length s"
  by (simp add: str_def)

lemma js_lt_irrefl [simp]: "\<not> js_lt a a"
  by (cases a) simp_all

lemma adjustTotal_fields:
  "stepNumber (adjustTotal v) = stepNumber v"
  "codeReflection (adjustTotal v) = codeReflection v"
  "nextStepNeeded (adjustTotal v) = nextStepNeeded v"
  "isRevision (adjustTotal v) = isRevision v"
  "revisesStep (adjustTotal v) = revisesStep v"
  "branchFromStep (adjustTotal v) = branchFromStep v"
  "branchId (adjustTotal v) = branchId v"
  "totalSteps (adjustTotal v) =
     (if js_gt (stepNumber v) (totalSteps v) then stepNumber v else totalSteps v)"
  by (simp_all add: adjustTotal_def)

lemma typeof_TString: "typeof x = TString \<longleftrightarrow> (\<exists>s. x = JStr s)"
  by (cases x) simp_all

lemma typeof_TNumber: "typeof x = TNumber \<longleftrightarrow> (\<exists>n. x = JNum n)"
  by (cases x) simp_all

lemma typeof_TBoolean: "typeof x = TBoolean \<longleftrightarrow> (\<exists>b. x = JBool b)"
  by (cases x) simp_all

lemma validate_Inr:
  assumes "validateCodePlanningData input = Inr v"
  shows "member input ''codeReflection'' = JStr (codeReflection v)"
    and "codeReflection v \<noteq> []"
    and "member input ''stepNumber'' = JNum (stepNumber v)"
    and "stepNumber v \<noteq> NaN" and "stepNumber v \<noteq> Fin 0"
    and "member input ''totalSteps'' = JNum (totalSteps v)"
    and "totalSteps v \<noteq> NaN" and "totalSteps v \<noteq> Fin 0"
    and "member input ''nextStepNeeded'' = JBool (nextStepNeeded v)"
    and "isRevision v = member input ''isRevision''"
    and "revisesStep v = member input ''revisesStep''"
    and "branchFromStep v = member input ''branchFromStep''"
    and "branchId v = member input ''branchId''"
  using assms
  by (auto simp: validateCodePlanningData_def typeof_TString typeof_TNumber typeof_TBoolean
      split: if_splits)

lemma process_invalid:
  "validateCodePlanningData input = Inl e \<Longrightarrow>
     processCodePlanning env this input = (errorResult e, this)"
  by (simp add: processCodePlanning_def)

lemma registerBranch_history:
  "registerBranch env this v = Inr this' \<Longrightarrow> reflectionHistory this' = reflectionHistory this"
  by (auto simp: registerBranch_def Let_def split: if_splits sum.splits lookup.splits)

lemma process_history:
  "reflectionHistory (snd (processCodePlanning env this input)) =
     (case validateCodePlanningData input of
        Inl e \<Rightarrow> reflectionHistory this
      | Inr v \<Rightarrow> reflectionHistory this @ [adjustTotal v])"
  by (auto simp: processCodePlanning_def Let_def dest: registerBranch_history
      split: sum.splits option.splits)

lemma isError_errorResult: "isError (errorResult e) = Some True"
  by (simp add: errorResult_def)

lemma process_success:
  assumes "processCodePlanning env this input = (res, this')" and "isError res = None"
  obtains v where "validateCodePlanningData input = Inr v"
    and "registerBranch env (this\<lparr>reflectionHistory := reflectionHistory this @ [adjustTotal v]\<rparr>)
           (adjustTotal v) = Inr this'"
    and "res = successResult this' (adjustTotal v)"
  using assms
  by (auto simp: processCodePlanning_def Let_def isError_errorResult
      split: sum.splits option.splits)

lemma validate_callOne:
  "validateCodePlanningData callOne =
     Inr \<lparr>codeReflection = str ''Design module layout'', stepNumber = Fin 1, totalSteps = Fin 3,
          isRevision = JUndefined, revisesStep = JUndefined, branchFromStep = JUndefined,
          branchId = JUndefined, needsMoreSteps = JUndefined, nextStepNeeded = True\<rparr>"
  by (simp add: validateCodePlanningData_def callOne_def)

lemma validate_callTwo:
  "validateCodePlanningData callTwo =
     Inr \<lparr>codeReflection = str ''Add retry logic'', stepNumber = Fin 2, totalSteps = Fin 3,
          isRevision = JUndefined, revisesStep = JUndefined, branchFromStep = JNum (Fin 1),
          branchId = JStr (str ''retry-strategy''), needsMoreSteps = JUndefined, nextStepNeeded = True\<rparr>"
  by (simp add: validateCodePlanningData_def callTwo_def)

lemma validate_callThree:
  "validateCodePlanningData callThree =
     Inr \<lparr>codeReflection = str ''Revisit step 1'', stepNumber = Fin 2, totalSteps = Fin 1,
          isRevision = JBool True, revisesStep = JNum (Fin 1), branchFromStep = JUndefined,
          branchId = JUndefined, needsMoreSteps = JUndefined, nextStepNeeded = True\<rparr>"
  by (simp add: validateCodePlanningData_def callThree_def)

lemma process_callOne:
  "processCodePlanning plainEnv initialServer callOne =
    (\<lparr>content = SuccessJson \<lparr>res_stepNumber = Fin 1, res_totalSteps = Fin 3,
         res_nextStepNeeded = True, res_branches = [], res_reflectionHistoryLength = 1\<rparr>,
      isError = None\<rparr>,
     \<lparr>reflectionHistory = [\<lparr>codeReflection = str ''Design module layout'', stepNumber = Fin 1, totalSteps = Fin 3,
          isRevision = JUndefined, revisesStep = JUndefined, branchFromStep = JUndefined,
          branchId = JUndefined, needsMoreSteps = JUndefined, nextStepNeeded = True\<rparr>], branches = []\<rparr>)"
  by (simp add: processCodePlanning_def validate_callOne adjustTotal_def js_gt_def registerBranch_def
      formatCodeReflection_def prefixAndContext_def successResult_def Object_keys_def initialServer_def plainEnv_def)

lemma process_callThree:
  "processCodePlanning plainEnv initialServer callThree =
    (\<lparr>content = SuccessJson \<lparr>res_stepNumber = Fin 2, res_totalSteps = Fin 2,
         res_nextStepNeeded = True, res_branches = [], res_reflectionHistoryLength = 1\<rparr>,
      isError = None\<rparr>,
     \<lparr>reflectionHistory = [\<lparr>codeReflection = str ''Revisit step 1'', stepNumber = Fin 2, totalSteps = Fin 2,
          isRevision = JBool True, revisesStep = JNum (Fin 1), branchFromStep = JUndefined,
          branchId = JUndefined, needsMoreSteps = JUndefined, nextStepNeeded = True\<rparr>], branches = []\<rparr>)"
  by (simp add: processCodePlanning_def validate_callThree adjustTotal_def js_gt_def registerBranch_def
      formatCodeReflection_def prefixAndContext_def successResult_def Object_keys_def initialServer_def plainEnv_def)

lemma arrayIndex_retry: "arrayIndex (str ''retry-strategy'') = None"
  by (simp add: arrayIndex_def str_def)

lemma retry_not_inherited: "str ''retry-strategy'' \<notin> set objectPrototypeNames"
  by (simp add: objectPrototypeNames_def)

lemma process_callTwo:
  "processCodePlanning plainEnv (snd (processCodePlanning plainEnv initialServer callOne)) callTwo =
    (\<lparr>content = SuccessJson \<lparr>res_stepNumber = Fin 2, res_totalSteps = Fin 3,
         res_nextStepNeeded = True, res_branches = [str ''retry-strategy''], res_reflectionHistoryLength = 2\<rparr>,
      isError = None\<rparr>,
     \<lparr>reflectionHistory = [\<lparr>codeReflection = str ''Design module layout'', stepNumber = Fin 1, totalSteps = Fin 3,
          isRevision = JUndefined, revisesStep = JUndefined, branchFromStep = JUndefined,
          branchId = JUndefined, needsMoreSteps = JUndefined, nextStepNeeded = True\<rparr>,
        \<lparr>codeReflection = str ''Add retry logic'', stepNumber = Fin 2, totalSteps = Fin 3,
          isRevision = JUndefined, revisesStep = JUndefined, branchFromStep = JNum (Fin 1),
          branchId = JStr (str ''retry-strategy''), needsMoreSteps = JUndefined, nextStepNeeded = True\<rparr>],
      branches = [(str ''retry-strategy'', [\<lparr>codeReflection = str ''Add retry logic'', stepNumber = Fin 2, totalSteps = Fin 3,
          isRevision = JUndefined, revisesStep = JUndefined, branchFromStep = JNum (Fin 1),
          branchId = JStr (str ''retry-strategy''), needsMoreSteps = JUndefined, nextStepNeeded = True\<rparr>])]\<rparr>)"
  by (simp add: process_callOne)
   (simp add: processCodePlanning_def validate_callTwo adjustTotal_def js_gt_def registerBranch_def
      formatCodeReflection_def prefixAndContext_def successResult_def Object_keys_def plainEnv_def
      branchesGet_def retry_not_inherited arrayIndex_retry Let_def)

section \<open>Validation\<close>

lemma validate_bad_stepNumber:
  assumes "input \<noteq> JUndefined" and "input \<noteq> JNull" and "\<not> stepNumberOk input"
  shows "validateCodePlanningData input =
           Inl (Error (if reflectionOk input then str ''Invalid stepNumber: must be a number''
                       else str ''Invalid codeReflection: must be a string''))"
  using assms by (simp add: validateCodePlanningData_def reflectionOk_def stepNumberOk_def)

lemma validate_bad_totalSteps:
  assumes "input \<noteq> JUndefined" and "input \<noteq> JNull" and "\<not> totalStepsOk input"
  shows "validateCodePlanningData input =
           Inl (Error (if reflectionOk input
                       then (if stepNumberOk input then str ''Invalid totalSteps: must be a number''
                             else str ''Invalid stepNumber: must be a number'')
                       else str ''Invalid codeReflection: must be a string''))"
  using assms
  by (simp add: validateCodePlanningData_def reflectionOk_def stepNumberOk_def totalStepsOk_def)

lemma validate_Inl:
  assumes "validateCodePlanningData input = Inl e"
  shows "message_of e \<in> Text ` set validationMessages \<or> message_of e = EngineText ReadOfNullish"
  using assms
  by (auto simp: validateCodePlanningData_def validationMessages_def split: if_splits)

text \<open>
  C2. An input that fails validation gets an error result of the shape
  \<^verbatim>\<open>{ error: message, status: "failed" }\<close> with the error flag set, and the server
  (history and branches) is returned as it was. The message is one of the four
  validation messages, or the engine's when the input itself is \<^verbatim>\<open>undefined\<close> or
  \<^verbatim>\<open>null\<close>.
\<close>

theorem C2_invalid_input_error_result:
  assumes "validateCodePlanningData input = Inl e"
  shows "processCodePlanning env this input =
           (\<lparr>content = ErrorJson \<lparr>error = message_of e, status = str ''failed''\<rparr>,
             isError = Some True\<rparr>, this)
         \<and> (message_of e \<in> Text ` set validationMessages \<or> message_of e = EngineText ReadOfNullish)"
  using assms validate_Inl [OF assms] by (simp add: process_invalid errorResult_def)

theorem C2_invalid_input_error_result_witness:
  "validateCodePlanningData (JObj []) = Inl (Error (str ''Invalid codeReflection: must be a string''))
   \<and> processCodePlanning plainEnv initialServer (JObj []) =
       (\<lparr>content = ErrorJson \<lparr>error = Text (str ''Invalid codeReflection: must be a string''),
                                status = str ''failed''\<rparr>,
         isError = Some True\<rparr>, initialServer)"
proof -
  have h: "validateCodePlanningData (JObj []) =
             Inl (Error (str ''Invalid codeReflection: must be a string''))"
    by (simp add: validateCodePlanningData_def)
  show ?thesis
    using h C2_invalid_input_error_result [OF h, of plainEnv initialServer] by simp
qed

lemma process_invalid_message:
  "validateCodePlanningData input = Inl (Error m) \<Longrightarrow>
     processCodePlanning env this input =
       (\<lparr>content = ErrorJson \<lparr>error = Text m, status = str ''failed''\<rparr>,
         isError = Some True\<rparr>, this)"
  by (simp add: processCodePlanning_def errorResult_def)

text \<open>
  C10. When an input fails one or several checks, the message in the error result is
  the one of the first failing check in the order reflection, step number, total
  steps, next step needed. An input with no field at all fails all four and reports
  the reflection; one with a reflection and with 0 for both numbers fails two and
  reports the step number.
\<close>

theorem C10_first_failing_check_reported:
  assumes "input \<noteq> JUndefined" and "input \<noteq> JNull" and "failingChecks input \<noteq> []"
  shows "processCodePlanning env this input =
           (\<lparr>content = ErrorJson \<lparr>error = Text (hd (failingChecks input)),
                                    status = str ''failed''\<rparr>,
             isError = Some True\<rparr>, this)"
proof -
  have "validateCodePlanningData input = Inl (Error (hd (failingChecks input)))"
    using assms
    by (auto simp: validateCodePlanningData_def failingChecks_def reflectionOk_def
        stepNumberOk_def totalStepsOk_def nextStepNeededOk_def split: if_splits)
  then show ?thesis by (rule process_invalid_message)
qed

theorem C10_first_failing_check_reported_witness:
  "JObj [] \<noteq> JUndefined \<and> JObj [] \<noteq> JNull \<and> failingChecks (JObj []) = validationMessages
   \<and> processCodePlanning plainEnv initialServer (JObj []) =
        (\<lparr>content = ErrorJson \<lparr>error = Text (str ''Invalid codeReflection: must be a string''),
                                 status = str ''failed''\<rparr>,
          isError = Some True\<rparr>, initialServer)
   \<and> zeroStepZeroTotal \<noteq> JUndefined \<and> zeroStepZeroTotal \<noteq> JNull
   \<and> failingChecks zeroStepZeroTotal =
        [str ''Invalid stepNumber: must be a number'', str ''Invalid totalSteps: must be a number'']
   \<and> processCodePlanning plainEnv initialServer zeroStepZeroTotal =
        (\<lparr>content = ErrorJson \<lparr>error = Text (str ''Invalid stepNumber: must be a number''),
                                 status = str ''failed''\<rparr>,
          isError = Some True\<rparr>, initialServer)"
proof -
  have f: "failingChecks (JObj []) = validationMessages"
    by (simp add: failingChecks_def validationMessages_def reflectionOk_def
        stepNumberOk_def totalStepsOk_def nextStepNeededOk_def)
  then have ne: "failingChecks (JObj []) \<noteq> []"
    by (simp add: validationMessages_def)
  have g: "failingChecks zeroStepZeroTotal =
        [str ''Invalid stepNumber: must be a number'', str ''Invalid totalSteps: must be a number'']"
    by (simp add: failingChecks_def zeroStepZeroTotal_def reflectionOk_def
        stepNumberOk_def totalStepsOk_def nextStepNeededOk_def)
  then have ng: "failingChecks zeroStepZeroTotal \<noteq> []"
    by simp
  have z: "zeroStepZeroTotal \<noteq> JUndefined" "zeroStepZeroTotal \<noteq> JNull"
    by (simp_all add: zeroStepZeroTotal_def)
  have 1: "processCodePlanning plainEnv initialServer (JObj []) =
        (\<lparr>content = ErrorJson \<lparr>error = Text (str ''Invalid codeReflection: must be a string''),
                                 status = str ''failed''\<rparr>,
          isError = Some True\<rparr>, initialServer)"
    using C10_first_failing_check_reported [OF _ _ ne, of plainEnv initialServer]
    by (simp add: f validationMessages_def)
  have 2: "processCodePlanning plainEnv initialServer zeroStepZeroTotal =
        (\<lparr>content = ErrorJson \<lparr>error = Text (str ''Invalid stepNumber: must be a number''),
                                 status = str ''failed''\<rparr>,
          isError = Some True\<rparr>, initialServer)"
    using C10_first_failing_check_reported [OF z ng, of plainEnv initialServer]
    by (simp add: g)
  show ?thesis using f g z 1 2 by simp
qed

text \<open>
  C9. An input whose reflection is the empty string fails validation with
  \<^verbatim>\<open>Invalid codeReflection: must be a string\<close> and the server is unchanged; when
  validation succeeds the reflection is not empty, and it is that text the call stores
  at the end of the history.
\<close>

theorem C9_empty_reflection_rejected:
  "(member input ''codeReflection'' = JStr [] \<longrightarrow>
      processCodePlanning env this input =
        (errorResult (Error (str ''Invalid codeReflection: must be a string'')), this))
   \<and> (\<forall>v. validateCodePlanningData input = Inr v \<longrightarrow>
         codeReflection v \<noteq> []
         \<and> reflectionHistory (snd (processCodePlanning env this input))
             = reflectionHistory this @ [adjustTotal v]
         \<and> codeReflection (adjustTotal v) = codeReflection v)"
proof (intro conjI impI allI)
  assume e: "member input ''codeReflection'' = JStr []"
  then have "input \<noteq> JUndefined" "input \<noteq> JNull" by auto
  with e have "validateCodePlanningData input
                 = Inl (Error (str ''Invalid codeReflection: must be a string''))"
    by (simp add: validateCodePlanningData_def)
  then show "processCodePlanning env this input =
        (errorResult (Error (str ''Invalid codeReflection: must be a string'')), this)"
    by (rule process_invalid)
next
  fix v assume v: "validateCodePlanningData input = Inr v"
  then show "codeReflection v \<noteq> []" by (rule validate_Inr)
  show "reflectionHistory (snd (processCodePlanning env this input))
             = reflectionHistory this @ [adjustTotal v]"
    by (simp add: process_history v)
  show "codeReflection (adjustTotal v) = codeReflection v"
    by (simp add: adjustTotal_def)
qed

theorem C9_empty_reflection_rejected_witness:
  "member emptyReflection ''codeReflection'' = JStr []
   \<and> processCodePlanning plainEnv initialServer emptyReflection =
        (errorResult (Error (str ''Invalid codeReflection: must be a string'')), initialServer)
   \<and> (\<exists>v. validateCodePlanningData callOne = Inr v
          \<and> codeReflection v = str ''Design module layout''
          \<and> map codeReflection (reflectionHistory (snd (processCodePlanning plainEnv initialServer callOne)))
              = [str ''Design module layout''])"
proof -
  have e: "member emptyReflection ''codeReflection'' = JStr []"
    by (simp add: emptyReflection_def)
  note v = validate_callOne
  from C9_empty_reflection_rejected [of emptyReflection plainEnv initialServer] e
  have 1: "processCodePlanning plainEnv initialServer emptyReflection =
        (errorResult (Error (str ''Invalid codeReflection: must be a string'')), initialServer)"
    by simp
  from C9_empty_reflection_rejected [of callOne plainEnv initialServer] v
  have 2: "map codeReflection (reflectionHistory (snd (processCodePlanning plainEnv initialServer callOne)))
              = [str ''Design module layout'']"
    by (simp add: initialServer_def)
  show ?thesis using e 1 2 v by simp
qed

text \<open>
  C3, as the source has it. A step number or a total of 0 is rejected exactly as an
  absent one: the two calls return the same error result and leave the server
  unchanged. The message is the one of the first failing check: for a step number of
  0 it is \<^verbatim>\<open>Invalid stepNumber: must be a number\<close> when the reflection passes its
  check and the reflection's message otherwise; for a total of 0 it is
  \<^verbatim>\<open>Invalid totalSteps: must be a number\<close> when the reflection and the step number
  pass theirs, else the message of the first of the two that fails.
\<close>

theorem C3_zero_rejected_like_absent:
  "(member a ''stepNumber'' = JNum (Fin 0) \<and> member b ''stepNumber'' = JUndefined
      \<and> b \<noteq> JUndefined \<and> b \<noteq> JNull
      \<and> member a ''codeReflection'' = member b ''codeReflection'' \<longrightarrow>
        processCodePlanning env this a = processCodePlanning env this b
        \<and> isError (fst (processCodePlanning env this a)) = Some True
        \<and> snd (processCodePlanning env this a) = this)
   \<and> (member a ''totalSteps'' = JNum (Fin 0) \<and> member b ''totalSteps'' = JUndefined
      \<and> b \<noteq> JUndefined \<and> b \<noteq> JNull
      \<and> member a ''codeReflection'' = member b ''codeReflection''
      \<and> member a ''stepNumber'' = member b ''stepNumber'' \<longrightarrow>
        processCodePlanning env this a = processCodePlanning env this b
        \<and> isError (fst (processCodePlanning env this a)) = Some True
        \<and> snd (processCodePlanning env this a) = this)
   \<and> (member a ''stepNumber'' = JNum (Fin 0) \<longrightarrow>
        processCodePlanning env this a =
          (\<lparr>content = ErrorJson
              \<lparr>error = Text (if reflectionOk a then str ''Invalid stepNumber: must be a number''
                              else str ''Invalid codeReflection: must be a string''),
               status = str ''failed''\<rparr>,
            isError = Some True\<rparr>, this))
   \<and> (member a ''totalSteps'' = JNum (Fin 0) \<longrightarrow>
        processCodePlanning env this a =
          (\<lparr>content = ErrorJson
              \<lparr>error = Text (if reflectionOk a
                              then (if stepNumberOk a
                                    then str ''Invalid totalSteps: must be a number''
                                    else str ''Invalid stepNumber: must be a number'')
                              else str ''Invalid codeReflection: must be a string''),
               status = str ''failed''\<rparr>,
            isError = Some True\<rparr>, this))"
proof (intro conjI impI)
  assume h: "member a ''stepNumber'' = JNum (Fin 0) \<and> member b ''stepNumber'' = JUndefined
      \<and> b \<noteq> JUndefined \<and> b \<noteq> JNull
      \<and> member a ''codeReflection'' = member b ''codeReflection''"
  then have na: "a \<noteq> JUndefined" "a \<noteq> JNull" by auto
  from h have bad: "\<not> stepNumberOk a" "\<not> stepNumberOk b"
    by (simp_all add: stepNumberOk_def)
  from h have same: "reflectionOk a = reflectionOk b"
    by (simp add: reflectionOk_def)
  have "validateCodePlanningData a = validateCodePlanningData b"
    using h by (simp add: validate_bad_stepNumber na bad same)
  moreover have "\<exists>e. validateCodePlanningData a = Inl e"
    by (simp add: validate_bad_stepNumber na bad)
  ultimately show "processCodePlanning env this a = processCodePlanning env this b"
    "isError (fst (processCodePlanning env this a)) = Some True"
    "snd (processCodePlanning env this a) = this"
    by (auto simp: processCodePlanning_def isError_errorResult)
next
  assume h: "member a ''totalSteps'' = JNum (Fin 0) \<and> member b ''totalSteps'' = JUndefined
      \<and> b \<noteq> JUndefined \<and> b \<noteq> JNull
      \<and> member a ''codeReflection'' = member b ''codeReflection''
      \<and> member a ''stepNumber'' = member b ''stepNumber''"
  then have na: "a \<noteq> JUndefined" "a \<noteq> JNull" by auto
  from h have bad: "\<not> totalStepsOk a" "\<not> totalStepsOk b"
    by (simp_all add: totalStepsOk_def)
  from h have same: "reflectionOk a = reflectionOk b" "stepNumberOk a = stepNumberOk b"
    by (simp_all add: reflectionOk_def stepNumberOk_def)
  have "validateCodePlanningData a = validateCodePlanningData b"
    using h by (simp add: validate_bad_totalSteps na bad same)
  moreover have "\<exists>e. validateCodePlanningData a = Inl e"
    by (simp add: validate_bad_totalSteps na bad)
  ultimately show "processCodePlanning env this a = processCodePlanning env this b"
    "isError (fst (processCodePlanning env this a)) = Some True"
    "snd (processCodePlanning env this a) = this"
    by (auto simp: processCodePlanning_def isError_errorResult)
next
  assume h: "member a ''stepNumber'' = JNum (Fin 0)"
  then have na: "a \<noteq> JUndefined" "a \<noteq> JNull" by auto
  from h have "\<not> stepNumberOk a"
    by (simp add: stepNumberOk_def)
  then show "processCodePlanning env this a =
          (\<lparr>content = ErrorJson
              \<lparr>error = Text (if reflectionOk a then str ''Invalid stepNumber: must be a number''
                              else str ''Invalid codeReflection: must be a string''),
               status = str ''failed''\<rparr>,
            isError = Some True\<rparr>, this)"
    by (intro process_invalid_message validate_bad_stepNumber na)
next
  assume h: "member a ''totalSteps'' = JNum (Fin 0)"
  then have na: "a \<noteq> JUndefined" "a \<noteq> JNull" by auto
  from h have "\<not> totalStepsOk a"
    by (simp add: totalStepsOk_def)
  then show "processCodePlanning env this a =
          (\<lparr>content = ErrorJson
              \<lparr>error = Text (if reflectionOk a
                              then (if stepNumberOk a
                                    then str ''Invalid totalSteps: must be a number''
                                    else str ''Invalid stepNumber: must be a number'')
                              else str ''Invalid codeReflection: must be a string''),
               status = str ''failed''\<rparr>,
            isError = Some True\<rparr>, this)"
    by (intro process_invalid_message validate_bad_totalSteps na)
qed

theorem C3_zero_rejected_like_absent_witness:
  "member zeroStep ''stepNumber'' = JNum (Fin 0) \<and> member missingStep ''stepNumber'' = JUndefined
   \<and> missingStep \<noteq> JUndefined \<and> missingStep \<noteq> JNull
   \<and> member zeroStep ''codeReflection'' = member missingStep ''codeReflection''
   \<and> processCodePlanning plainEnv initialServer missingStep =
        (\<lparr>content = ErrorJson \<lparr>error = Text (str ''Invalid stepNumber: must be a number''),
                                 status = str ''failed''\<rparr>,
          isError = Some True\<rparr>, initialServer)
   \<and> processCodePlanning plainEnv initialServer zeroStep =
        (\<lparr>content = ErrorJson \<lparr>error = Text (str ''Invalid stepNumber: must be a number''),
                                 status = str ''failed''\<rparr>,
          isError = Some True\<rparr>, initialServer)
   \<and> member zeroTotal ''totalSteps'' = JNum (Fin 0) \<and> member missingTotal ''totalSteps'' = JUndefined
   \<and> missingTotal \<noteq> JUndefined \<and> missingTotal \<noteq> JNull
   \<and> member zeroTotal ''codeReflection'' = member missingTotal ''codeReflection''
   \<and> member zeroTotal ''stepNumber'' = member missingTotal ''stepNumber''
   \<and> processCodePlanning plainEnv initialServer missingTotal =
        (\<lparr>content = ErrorJson \<lparr>error = Text (str ''Invalid totalSteps: must be a number''),
                                 status = str ''failed''\<rparr>,
          isError = Some True\<rparr>, initialServer)
   \<and> processCodePlanning plainEnv initialServer zeroTotal =
        (\<lparr>content = ErrorJson \<lparr>error = Text (str ''Invalid totalSteps: must be a number''),
                                 status = str ''failed''\<rparr>,
          isError = Some True\<rparr>, initialServer)"
proof -
  have s: "member zeroStep ''stepNumber'' = JNum (Fin 0)" "member missingStep ''stepNumber'' = JUndefined"
    "missingStep \<noteq> JUndefined" "missingStep \<noteq> JNull"
    "member zeroStep ''codeReflection'' = member missingStep ''codeReflection''"
    by (simp_all add: zeroStep_def missingStep_def)
  have t: "member zeroTotal ''totalSteps'' = JNum (Fin 0)" "member missingTotal ''totalSteps'' = JUndefined"
    "missingTotal \<noteq> JUndefined" "missingTotal \<noteq> JNull"
    "member zeroTotal ''codeReflection'' = member missingTotal ''codeReflection''"
    "member zeroTotal ''stepNumber'' = member missingTotal ''stepNumber''"
    by (simp_all add: zeroTotal_def missingTotal_def)
  have ok: "reflectionOk zeroStep" "reflectionOk zeroTotal" "stepNumberOk zeroTotal"
    by (simp_all add: zeroStep_def zeroTotal_def reflectionOk_def stepNumberOk_def)
  note one = C3_zero_rejected_like_absent [of zeroStep missingStep plainEnv initialServer]
  note two = C3_zero_rejected_like_absent [of zeroTotal missingTotal plainEnv initialServer]
  from one s have eq1: "processCodePlanning plainEnv initialServer zeroStep =
               processCodePlanning plainEnv initialServer missingStep"
    by blast
  from one s have "processCodePlanning plainEnv initialServer zeroStep =
          (\<lparr>content = ErrorJson
              \<lparr>error = Text (if reflectionOk zeroStep then str ''Invalid stepNumber: must be a number''
                              else str ''Invalid codeReflection: must be a string''),
               status = str ''failed''\<rparr>,
            isError = Some True\<rparr>, initialServer)"
    by blast
  then have z1: "processCodePlanning plainEnv initialServer zeroStep =
        (\<lparr>content = ErrorJson \<lparr>error = Text (str ''Invalid stepNumber: must be a number''),
                                 status = str ''failed''\<rparr>,
          isError = Some True\<rparr>, initialServer)"
    by (simp add: ok)
  from eq1 [symmetric] z1
  have m1: "processCodePlanning plainEnv initialServer missingStep =
        (\<lparr>content = ErrorJson \<lparr>error = Text (str ''Invalid stepNumber: must be a number''),
                                 status = str ''failed''\<rparr>,
          isError = Some True\<rparr>, initialServer)"
    by (rule trans)
  from two t have eq2: "processCodePlanning plainEnv initialServer zeroTotal =
               processCodePlanning plainEnv initialServer missingTotal"
    by blast
  from two t have "processCodePlanning plainEnv initialServer zeroTotal =
          (\<lparr>content = ErrorJson
              \<lparr>error = Text (if reflectionOk zeroTotal
                              then (if stepNumberOk zeroTotal
                                    then str ''Invalid totalSteps: must be a number''
                                    else str ''Invalid stepNumber: must be a number'')
                              else str ''Invalid codeReflection: must be a string''),
               status = str ''failed''\<rparr>,
            isError = Some True\<rparr>, initialServer)"
    by blast
  then have z2: "processCodePlanning plainEnv initialServer zeroTotal =
        (\<lparr>content = ErrorJson \<lparr>error = Text (str ''Invalid totalSteps: must be a number''),
                                 status = str ''failed''\<rparr>,
          isError = Some True\<rparr>, initialServer)"
    by (simp add: ok)
  from eq2 [symmetric] z2
  have m2: "processCodePlanning plainEnv initialServer missingTotal =
        (\<lparr>content = ErrorJson \<lparr>error = Text (str ''Invalid totalSteps: must be a number''),
                                 status = str ''failed''\<rparr>,
          isError = Some True\<rparr>, initialServer)"
    by (rule trans)
  show ?thesis using s t z1 m1 z2 m2 by simp
qed

text \<open>
  C3 as the specification words it, with the field's own message for every input
  whose field is 0, fails where an earlier check fails too: a request with a step
  number of 0 and no reflection reports the reflection, and one with 0 for both
  numbers reports the step number, not the total.
\<close>

theorem C3_own_message_counterexample:
  "member zeroStepOnly ''stepNumber'' = JNum (Fin 0)
   \<and> processCodePlanning plainEnv initialServer zeroStepOnly =
        (\<lparr>content = ErrorJson \<lparr>error = Text (str ''Invalid codeReflection: must be a string''),
                                 status = str ''failed''\<rparr>,
          isError = Some True\<rparr>, initialServer)
   \<and> content (fst (processCodePlanning plainEnv initialServer zeroStepOnly)) \<noteq>
        ErrorJson \<lparr>error = Text (str ''Invalid stepNumber: must be a number''),
                   status = str ''failed''\<rparr>
   \<and> member zeroStepZeroTotal ''totalSteps'' = JNum (Fin 0)
   \<and> processCodePlanning plainEnv initialServer zeroStepZeroTotal =
        (\<lparr>content = ErrorJson \<lparr>error = Text (str ''Invalid stepNumber: must be a number''),
                                 status = str ''failed''\<rparr>,
          isError = Some True\<rparr>, initialServer)
   \<and> content (fst (processCodePlanning plainEnv initialServer zeroStepZeroTotal)) \<noteq>
        ErrorJson \<lparr>error = Text (str ''Invalid totalSteps: must be a number''),
                   status = str ''failed''\<rparr>"
proof -
  have 1: "validateCodePlanningData zeroStepOnly =
             Inl (Error (str ''Invalid codeReflection: must be a string''))"
    by (simp add: validateCodePlanningData_def zeroStepOnly_def)
  have 2: "validateCodePlanningData zeroStepZeroTotal =
             Inl (Error (str ''Invalid stepNumber: must be a number''))"
    by (simp add: validateCodePlanningData_def zeroStepZeroTotal_def)
  show ?thesis
    by (simp add: process_invalid_message [OF 1] process_invalid_message [OF 2])
      (simp add: zeroStepOnly_def zeroStepZeroTotal_def)
qed

section \<open>Successful calls\<close>

lemma set_Object_keys: "set (Object_keys own) = fst ` set own"
  by (auto simp: Object_keys_def)

lemma processAll_history:
  "reflectionHistory (processAll env this inputs) =
     reflectionHistory this
       @ concat (map (\<lambda>i. case validateCodePlanningData i of
                             Inl e \<Rightarrow> [] | Inr v \<Rightarrow> [adjustTotal v]) inputs)"
  by (induction inputs arbitrary: this) (auto simp: process_history split: sum.splits)

lemma adjustTotal_ge:
  assumes "validateCodePlanningData input = Inr v"
  shows "js_ge (totalSteps (adjustTotal v)) (stepNumber (adjustTotal v))"
  using validate_Inr(4,7) [OF assms]
  by (simp add: adjustTotal_fields js_ge_def js_gt_def)

text \<open>
  C1. In a successful call whose step number is greater than its total, the returned
  total is the input's step number, and that is the total stored with the step; when
  the step number is at most the total, the returned and stored total is the input's.
\<close>

theorem C1_total_raised_to_step_number:
  assumes "processCodePlanning env this input = (res, this')" and "isError res = None"
  shows "\<exists>sn ts p. member input ''stepNumber'' = JNum sn \<and> member input ''totalSteps'' = JNum ts
           \<and> content res = SuccessJson p
           \<and> (js_gt sn ts \<longrightarrow>
                 res_totalSteps p = sn \<and> totalSteps (last (reflectionHistory this')) = sn)
           \<and> (js_le sn ts \<longrightarrow>
                 res_totalSteps p = ts \<and> totalSteps (last (reflectionHistory this')) = ts)"
proof -
  from assms obtain v where v: "validateCodePlanningData input = Inr v"
    and res: "res = successResult this' (adjustTotal v)"
    by (rule process_success)
  have h: "reflectionHistory this' = reflectionHistory this @ [adjustTotal v]"
    using process_history [of env this input] assms(1) v by simp
  have "member input ''stepNumber'' = JNum (stepNumber v)"
    and "member input ''totalSteps'' = JNum (totalSteps v)"
    using v by (rule validate_Inr)+
  moreover have "content res = SuccessJson
      \<lparr>res_stepNumber = stepNumber v, res_totalSteps = totalSteps (adjustTotal v),
       res_nextStepNeeded = nextStepNeeded v, res_branches = Object_keys (branches this'),
       res_reflectionHistoryLength = length (reflectionHistory this')\<rparr>"
    by (simp add: res successResult_def adjustTotal_fields)
  moreover have "js_gt (stepNumber v) (totalSteps v) \<longrightarrow> totalSteps (adjustTotal v) = stepNumber v"
    by (simp add: adjustTotal_fields)
  moreover have "js_le (stepNumber v) (totalSteps v) \<longrightarrow> totalSteps (adjustTotal v) = totalSteps v"
    by (simp add: adjustTotal_fields js_le_def js_gt_def)
  ultimately show ?thesis
    by (simp add: h)
qed

theorem C1_total_raised_to_step_number_witness:
  "isError (fst (processCodePlanning plainEnv initialServer callThree)) = None
   \<and> member callThree ''stepNumber'' = JNum (Fin 2) \<and> member callThree ''totalSteps'' = JNum (Fin 1)
   \<and> js_gt (Fin 2) (Fin 1)
   \<and> (\<exists>p. content (fst (processCodePlanning plainEnv initialServer callThree)) = SuccessJson p
          \<and> res_totalSteps p = Fin 2)
   \<and> totalSteps (last (reflectionHistory (snd (processCodePlanning plainEnv initialServer callThree)))) = Fin 2
   \<and> isError (fst (processCodePlanning plainEnv initialServer callOne)) = None
   \<and> member callOne ''stepNumber'' = JNum (Fin 1) \<and> member callOne ''totalSteps'' = JNum (Fin 3)
   \<and> js_le (Fin 1) (Fin 3)
   \<and> (\<exists>p. content (fst (processCodePlanning plainEnv initialServer callOne)) = SuccessJson p
          \<and> res_totalSteps p = Fin 3)"
proof -
  have e3: "isError (fst (processCodePlanning plainEnv initialServer callThree)) = None"
    and e1: "isError (fst (processCodePlanning plainEnv initialServer callOne)) = None"
    by (simp_all add: process_callThree process_callOne)
  have m: "member callThree ''stepNumber'' = JNum (Fin 2)" "member callThree ''totalSteps'' = JNum (Fin 1)"
    "member callOne ''stepNumber'' = JNum (Fin 1)" "member callOne ''totalSteps'' = JNum (Fin 3)"
    by (simp_all add: callThree_def callOne_def)
  have c: "js_gt (Fin 2) (Fin 1)" "js_le (Fin 1) (Fin 3)"
    by (simp_all add: js_gt_def js_le_def)
  from C1_total_raised_to_step_number [OF surjective_pairing e3]
  have 3: "(\<exists>p. content (fst (processCodePlanning plainEnv initialServer callThree)) = SuccessJson p
          \<and> res_totalSteps p = Fin 2)
     \<and> totalSteps (last (reflectionHistory (snd (processCodePlanning plainEnv initialServer callThree)))) = Fin 2"
    using m c by auto
  from C1_total_raised_to_step_number [OF surjective_pairing e1]
  have 1: "\<exists>p. content (fst (processCodePlanning plainEnv initialServer callOne)) = SuccessJson p
          \<and> res_totalSteps p = Fin 3"
    using m c by auto
  show ?thesis using e3 e1 m c 3 1 by simp
qed

text \<open>
  C5. A successful call appends exactly one step to the history, and its payload holds
  the input's step number, the total after the adjustment (the one stored), the
  input's \<^verbatim>\<open>nextStepNeeded\<close>, the keys of the branches object and the length of
  the history after the append.
\<close>

theorem C5_success_appends_one_step:
  assumes "processCodePlanning env this input = (res, this')" and "isError res = None"
  shows "\<exists>stored p.
           reflectionHistory this' = reflectionHistory this @ [stored]
           \<and> length (reflectionHistory this') = length (reflectionHistory this) + 1
           \<and> content res = SuccessJson p
           \<and> JNum (res_stepNumber p) = member input ''stepNumber''
           \<and> res_totalSteps p = totalSteps stored
           \<and> JNum (res_totalSteps p) =
               (if js_gt (asNumber (member input ''stepNumber'')) (asNumber (member input ''totalSteps''))
                then member input ''stepNumber'' else member input ''totalSteps'')
           \<and> JBool (res_nextStepNeeded p) = member input ''nextStepNeeded''
           \<and> set (res_branches p) = fst ` set (branches this')
           \<and> res_reflectionHistoryLength p = length (reflectionHistory this')"
proof -
  from assms obtain v where v: "validateCodePlanningData input = Inr v"
    and res: "res = successResult this' (adjustTotal v)"
    by (rule process_success)
  have h: "reflectionHistory this' = reflectionHistory this @ [adjustTotal v]"
    using process_history [of env this input] assms(1) v by simp
  note m = validate_Inr(1,3,6,9) [OF v]
  show ?thesis
    apply (rule exI [of _ "adjustTotal v"])
    apply (rule exI [of _ "\<lparr>res_stepNumber = stepNumber v, res_totalSteps = totalSteps (adjustTotal v),
       res_nextStepNeeded = nextStepNeeded v, res_branches = Object_keys (branches this'),
       res_reflectionHistoryLength = length (reflectionHistory this')\<rparr>"])
    apply (simp add: h res successResult_def adjustTotal_fields m set_Object_keys)
    done
qed

theorem C5_success_appends_one_step_witness:
  "isError (fst (processCodePlanning plainEnv
                   (snd (processCodePlanning plainEnv initialServer callOne)) callTwo)) = None
   \<and> length (reflectionHistory (snd (processCodePlanning plainEnv initialServer callOne))) = 1
   \<and> length (reflectionHistory (snd (processCodePlanning plainEnv
                   (snd (processCodePlanning plainEnv initialServer callOne)) callTwo))) = 2
   \<and> (\<exists>p. content (fst (processCodePlanning plainEnv
                   (snd (processCodePlanning plainEnv initialServer callOne)) callTwo)) = SuccessJson p
         \<and> res_stepNumber p = Fin 2 \<and> res_totalSteps p = Fin 3 \<and> res_nextStepNeeded p
         \<and> set (res_branches p) = {str ''retry-strategy''}
         \<and> res_reflectionHistoryLength p = 2)"
proof -
  let ?s1 = "snd (processCodePlanning plainEnv initialServer callOne)"
  have e: "isError (fst (processCodePlanning plainEnv ?s1 callTwo)) = None"
    by (simp add: process_callTwo)
  have l: "length (reflectionHistory ?s1) = 1"
    by (simp add: process_callOne)
  have b: "fst ` set (branches (snd (processCodePlanning plainEnv ?s1 callTwo))) = {str ''retry-strategy''}"
    by (simp add: process_callTwo)
  have m: "member callTwo ''stepNumber'' = JNum (Fin 2)" "member callTwo ''totalSteps'' = JNum (Fin 3)"
    "member callTwo ''nextStepNeeded'' = JBool True"
    by (simp_all add: callTwo_def)
  from C5_success_appends_one_step [OF surjective_pairing e]
  show ?thesis
    using e l b m by (auto simp: js_gt_def)
qed

text \<open>
  C8. After any sequence of calls on a fresh server, every step of the history has a
  stored total that is greater than or equal to its step number.
\<close>

theorem C8_stored_total_never_below_step:
  "\<forall>v \<in> set (reflectionHistory (processAll env initialServer inputs)).
     js_ge (totalSteps v) (stepNumber v)"
  by (auto simp: processAll_history initialServer_def adjustTotal_ge split: sum.splits)

theorem C8_stored_total_never_below_step_witness:
  "map (\<lambda>v. (stepNumber v, totalSteps v))
     (reflectionHistory (processAll plainEnv initialServer [callOne, callTwo, callThree]))
     = [(Fin 1, Fin 3), (Fin 2, Fin 3), (Fin 2, Fin 2)]
   \<and> js_ge (Fin 3) (Fin 1) \<and> js_ge (Fin 3) (Fin 2) \<and> js_ge (Fin 2) (Fin 2)"
proof -
  have h: "map (\<lambda>v. (stepNumber v, totalSteps v))
     (reflectionHistory (processAll plainEnv initialServer [callOne, callTwo, callThree]))
     = [(Fin 1, Fin 3), (Fin 2, Fin 3), (Fin 2, Fin 2)]"
    by (simp only: processAll_history)
      (simp add: initialServer_def validate_callOne validate_callTwo validate_callThree
        adjustTotal_def js_gt_def)
  then have "set (reflectionHistory (processAll plainEnv initialServer [callOne, callTwo, callThree])) \<noteq> {}"
    by auto
  from C8_stored_total_never_below_step [of plainEnv "[callOne, callTwo, callThree]"]
  have "list_all (\<lambda>p. js_ge (snd p) (fst p))
          (map (\<lambda>v. (stepNumber v, totalSteps v))
             (reflectionHistory (processAll plainEnv initialServer [callOne, callTwo, callThree])))"
    by (simp add: list_all_iff)
  with h show ?thesis by simp
qed

section \<open>Rendering\<close>

lemma frame_box:
  "frame header reflection = box (max (length header) (length reflection) + 4) header reflection"
  by (simp add: frame_def box_def padEnd_def Let_def)

lemma length_box:
  "length (box width header reflection) =
     3 * width + length header + max (length reflection) (width - 2) + 19"
  by (auto simp: box_def max_def)

lemma digits_small: "n < 10 \<Longrightarrow> digits n = [of_nat (48 + n)]"
  by (simp add: digits.simps)

lemma format_revisionStep:
  "formatCodeReflection plainEnv revisionStep =
     Inr (frame ([0xD83D, 0xDD04] @ str '' Revision 2/2 (revising step 1)'') (str ''Revisit step 1''))"
  by (simp add: formatCodeReflection_def prefixAndContext_def revisionStep_def plainEnv_def
      digits_small str_def)

lemma claimed_revisionStep:
  "claimedHeader decimalNumber revisionStep = str ''Revision 2/2 (revising step 1)''"
  by (simp add: claimedHeader_def claimedLabel_def claimedSuffix_def interpolated_def
      revisionStep_def digits_small str_def)

lemma reflection_revisionStep: "codeReflection revisionStep = str ''Revisit step 1''"
  by (simp add: revisionStep_def)

text \<open>
  C6, as the source has it. The label is the string literal of the source, emoji
  included, passed through chalk: yellow \<^verbatim>\<open>Revision\<close> when \<^verbatim>\<open>isRevision\<close> is
  truthy, else green \<^verbatim>\<open>Alternative\<close> when \<^verbatim>\<open>branchFromStep\<close> is truthy, else blue
  \<^verbatim>\<open>Code Step\<close>. The suffix is \<^verbatim>\<open> (revising step r)\<close>, \<^verbatim>\<open> (from step f, ID: b)\<close>
  or empty, where r, f and b are the fields converted to strings; when a conversion
  throws, the rendering throws. The header is label, space, step number, slash, total,
  suffix, and the border is as wide as the longer of header and reflection (in code
  units) plus 4.
\<close>

theorem C6_rendered_label_suffix_border:
  "formatCodeReflection env d =
     (case renderedSuffix env d of
        Inl e \<Rightarrow> Inl e
      | Inr suffix \<Rightarrow>
          Inr (box (max (length (renderedLabel env d @ str '' '' @ numberToString env (stepNumber d)
                                   @ str ''/'' @ numberToString env (totalSteps d) @ suffix))
                        (length (codeReflection d)) + 4)
                 (renderedLabel env d @ str '' '' @ numberToString env (stepNumber d)
                    @ str ''/'' @ numberToString env (totalSteps d) @ suffix)
                 (codeReflection d)))"
  by (simp add: formatCodeReflection_def prefixAndContext_def renderedSuffix_def renderedLabel_def
      frame_box split: sum.splits)

theorem C6_rendered_label_suffix_border_witness:
  "formatCodeReflection plainEnv revisionStep =
     Inr (box 37 ([0xD83D, 0xDD04] @ str '' Revision 2/2 (revising step 1)'') (str ''Revisit step 1''))
   \<and> formatCodeReflection ansiEnv revisionStep =
     Inr (box 47 ([0x1B] @ str ''[33m'' @ [0xD83D, 0xDD04] @ str '' Revision'' @ [0x1B]
                    @ str ''[39m 2/2 (revising step 1)'') (str ''Revisit step 1''))"
proof -
  have sfx: "renderedSuffix plainEnv revisionStep = Inr (str '' (revising step 1)'')"
    "renderedSuffix ansiEnv revisionStep = Inr (str '' (revising step 1)'')"
    by (simp_all add: renderedSuffix_def revisionStep_def plainEnv_def ansiEnv_def digits_small str_def)
  have lbl: "renderedLabel plainEnv revisionStep = [0xD83D, 0xDD04] @ str '' Revision''"
    "renderedLabel ansiEnv revisionStep
       = [0x1B] @ str ''[33m'' @ [0xD83D, 0xDD04] @ str '' Revision'' @ [0x1B] @ str ''[39m''"
    by (simp_all add: renderedLabel_def revisionStep_def plainEnv_def ansiEnv_def ansi_def str_def)
  have num: "numberToString plainEnv (stepNumber revisionStep) = str ''2''"
    "numberToString plainEnv (totalSteps revisionStep) = str ''2''"
    "numberToString ansiEnv (stepNumber revisionStep) = str ''2''"
    "numberToString ansiEnv (totalSteps revisionStep) = str ''2''"
    "codeReflection revisionStep = str ''Revisit step 1''"
    by (simp_all add: revisionStep_def plainEnv_def ansiEnv_def digits_small str_def)
  show ?thesis
    using C6_rendered_label_suffix_border [of plainEnv revisionStep]
      C6_rendered_label_suffix_border [of ansiEnv revisionStep]
    by (simp add: sfx lbl num) (simp add: str_def)
qed

text \<open>
  C6 as the specification words it, with the bare labels \<^verbatim>\<open>Revision\<close>,
  \<^verbatim>\<open>Alternative\<close> and \<^verbatim>\<open>Code Step\<close>, fails on a revision of step 1 rendered without
  colours: the header of the source starts with the emoji.
\<close>

theorem C6_bare_label_counterexample:
  "formatCodeReflection plainEnv revisionStep
     \<noteq> Inr (frame (claimedHeader decimalNumber revisionStep) (codeReflection revisionStep))"
proof
  assume "formatCodeReflection plainEnv revisionStep
     = Inr (frame (claimedHeader decimalNumber revisionStep) (codeReflection revisionStep))"
  then have "frame ([0xD83D, 0xDD04] @ str '' Revision 2/2 (revising step 1)'') (str ''Revisit step 1'')
     = frame (str ''Revision 2/2 (revising step 1)'') (str ''Revisit step 1'')"
    by (simp add: format_revisionStep claimed_revisionStep reflection_revisionStep)
  then have "length (frame ([0xD83D, 0xDD04] @ str '' Revision 2/2 (revising step 1)'') (str ''Revisit step 1''))
     = length (frame (str ''Revision 2/2 (revising step 1)'') (str ''Revisit step 1''))"
    by simp
  then show False
    by (simp add: frame_box length_box)
qed

section \<open>Branches\<close>

lemma validate_callConstructor: "validateCodePlanningData callConstructor = Inr constructorStep"
  by (simp add: validateCodePlanningData_def callConstructor_def constructorStep_def)

lemma constructor_inherited: "str ''constructor'' \<in> set objectPrototypeNames"
  by (simp add: objectPrototypeNames_def)

lemma adjust_constructorStep: "adjustTotal constructorStep = constructorStep"
  by (simp add: adjustTotal_def constructorStep_def js_gt_def)

lemma registerBranch_constructor:
  "map_of (branches this) (str ''constructor'') = None \<Longrightarrow>
     registerBranch env this constructorStep = Inl (TypeError NotAFunction)"
  by (simp add: registerBranch_def constructorStep_def branchesGet_def constructor_inherited)

text \<open>
  C4 fails for a branch id that names a property of \<^verbatim>\<open>Object.prototype\<close>. The
  request below is valid and carries \<^verbatim>\<open>branchFromStep = 1\<close> and
  \<^verbatim>\<open>branchId = "constructor"\<close>: the read \<^verbatim>\<open>this.branches["constructor"]\<close> finds the
  inherited function, no array is created, \<^verbatim>\<open>push\<close> is not a function, and the call
  ends in an error result with the step in the history and no branch registered.
\<close>

theorem C4_inherited_branch_id_not_registered:
  "processCodePlanning plainEnv initialServer callConstructor =
     (errorResult (TypeError NotAFunction),
      \<lparr>reflectionHistory = [constructorStep], branches = []\<rparr>)"
  by (simp add: processCodePlanning_def validate_callConstructor adjust_constructorStep
      registerBranch_constructor initialServer_def)

text \<open>For every other key the branch gains exactly the one step, in a sequence that
  is created when the key is new.\<close>

lemma registerBranch_own_key:
  assumes "truthy (branchFromStep v)" and "truthy (branchId v)"
    and "toStr (numberToString env) (branchId v) = Inr k"
    and "k \<notin> set objectPrototypeNames"
  shows "registerBranch env this v =
           Inr (this\<lparr>branches :=
                  AList.update k ((case map_of (branches this) k of None \<Rightarrow> [] | Some xs \<Rightarrow> xs) @ [v])
                    (branches this)\<rparr>)"
  using assms
  by (auto simp: registerBranch_def branchesGet_def Let_def update_conv' split: option.splits)

lemma registerBranch_appends_one:
  assumes "truthy (branchFromStep v)" and "truthy (branchId v)"
    and "toStr (numberToString env) (branchId v) = Inr k"
    and "k \<notin> set objectPrototypeNames"
  shows "\<exists>this'. registerBranch env this v = Inr this'
           \<and> map_of (branches this') k
               = Some ((case map_of (branches this) k of None \<Rightarrow> [] | Some xs \<Rightarrow> xs) @ [v])
           \<and> (\<forall>k'. k' \<noteq> k \<longrightarrow> map_of (branches this') k' = map_of (branches this) k')"
  by (simp add: registerBranch_own_key [OF assms] update_conv')

section \<open>Rendering, emission and the result\<close>

lemma validate_callOpaqueRevision:
  "validateCodePlanningData callOpaqueRevision = Inr opaqueRevisionStep"
  by (simp add: validateCodePlanningData_def callOpaqueRevision_def opaqueRevisionStep_def)

lemma format_opaque: "formatCodeReflection env opaqueRevisionStep = Inl (TypeError NotPrimitive)"
  by (simp add: formatCodeReflection_def prefixAndContext_def opaqueRevisionStep_def)

lemma adjust_opaqueRevisionStep: "adjustTotal opaqueRevisionStep = opaqueRevisionStep"
  by (simp add: adjustTotal_def opaqueRevisionStep_def js_gt_def)

lemma registerBranch_opaque: "registerBranch env this opaqueRevisionStep = Inr this"
  by (simp add: registerBranch_def opaqueRevisionStep_def)

lemma registerBranch_env:
  "numberToString env' = numberToString env \<Longrightarrow>
     registerBranch env' this v = registerBranch env this v"
  by (simp add: registerBranch_def)

lemma process_state_env:
  assumes "numberToString env' = numberToString env"
  shows "snd (processCodePlanning env' this input) = snd (processCodePlanning env this input)"
  by (simp add: processCodePlanning_def registerBranch_env [OF assms] Let_def
      split: sum.splits option.splits)

lemma process_success_determined:
  assumes "isError (fst (processCodePlanning env this input)) = None"
  shows "\<exists>v. validateCodePlanningData input = Inr v
           \<and> fst (processCodePlanning env this input)
               = successResult (snd (processCodePlanning env this input)) (adjustTotal v)"
  using process_success [OF surjective_pairing assms] by metis

lemma process_success_intro:
  assumes "validateCodePlanningData input = Inr v"
    and "registerBranch env (this\<lparr>reflectionHistory := reflectionHistory this @ [adjustTotal v]\<rparr>)
           (adjustTotal v) = Inr branched"
    and "formatCodeReflection env (adjustTotal v) = Inr text"
    and "console_error env text = None"
  shows "processCodePlanning env this input = (successResult branched (adjustTotal v), branched)"
  using assms by (simp add: processCodePlanning_def Let_def)

lemma adjusted_callThree:
  "validateCodePlanningData callThree = Inr v \<Longrightarrow> adjustTotal v = revisionStep"
  by (auto simp: validate_callThree adjustTotal_def revisionStep_def js_gt_def)

lemma registerBranch_revisionStep: "registerBranch env this revisionStep = Inr this"
  by (simp add: registerBranch_def revisionStep_def)

lemma format_revisionStep_returns:
  "\<exists>text. formatCodeReflection env revisionStep = Inr text"
  by (simp add: formatCodeReflection_def prefixAndContext_def revisionStep_def)

lemma process_callThree_env:
  assumes "\<And>s. console_error env s = None"
  shows "processCodePlanning env initialServer callThree =
           (successResult \<lparr>reflectionHistory = [revisionStep], branches = []\<rparr> revisionStep,
            \<lparr>reflectionHistory = [revisionStep], branches = []\<rparr>)"
proof -
  obtain v where v: "validateCodePlanningData callThree = Inr v"
    by (simp add: validate_callThree)
  then have a: "adjustTotal v = revisionStep"
    by (rule adjusted_callThree)
  obtain rendered where t: "formatCodeReflection env (adjustTotal v) = Inr rendered"
    using format_revisionStep_returns [of env] a by auto
  have "processCodePlanning env initialServer callThree =
          (successResult (initialServer\<lparr>reflectionHistory := reflectionHistory initialServer @ [adjustTotal v]\<rparr>)
             (adjustTotal v),
           initialServer\<lparr>reflectionHistory := reflectionHistory initialServer @ [adjustTotal v]\<rparr>)"
    by (rule process_success_intro [OF v _ t]) (simp_all add: a registerBranch_revisionStep assms)
  then show ?thesis by (simp add: a initialServer_def)
qed

text \<open>
  C7, as the source has it. Rendering and emission never change the server: the state
  after a call is the same in any two environments that render numbers alike, whatever
  chalk and \<^verbatim>\<open>console.error\<close> do. They do not change a success either: two such calls
  that both succeed return the same result. But both stand inside the \<^verbatim>\<open>try\<close>: when
  the rendering throws, or \<^verbatim>\<open>console.error\<close> does, the call returns the error result
  of that exception.
\<close>

theorem C7_rendering_leaves_state_and_payload:
  assumes "numberToString env' = numberToString env"
  shows "snd (processCodePlanning env' this input) = snd (processCodePlanning env this input)
    \<and> (isError (fst (processCodePlanning env this input)) = None
         \<and> isError (fst (processCodePlanning env' this input)) = None \<longrightarrow>
       fst (processCodePlanning env' this input) = fst (processCodePlanning env this input))
    \<and> (\<forall>v branched e.
          validateCodePlanningData input = Inr v
          \<and> registerBranch env
               (this\<lparr>reflectionHistory := reflectionHistory this @ [adjustTotal v]\<rparr>) (adjustTotal v)
              = Inr branched
          \<and> (formatCodeReflection env (adjustTotal v) = Inl e
              \<or> (\<exists>text. formatCodeReflection env (adjustTotal v) = Inr text
                         \<and> console_error env text = Some e)) \<longrightarrow>
          processCodePlanning env this input = (errorResult e, branched))"
proof (intro conjI impI allI)
  show s: "snd (processCodePlanning env' this input) = snd (processCodePlanning env this input)"
    using assms by (rule process_state_env)
  {
    assume ok: "isError (fst (processCodePlanning env this input)) = None
         \<and> isError (fst (processCodePlanning env' this input)) = None"
    from ok process_success_determined [of env this input]
    obtain v where v: "validateCodePlanningData input = Inr v"
      and r: "fst (processCodePlanning env this input)
               = successResult (snd (processCodePlanning env this input)) (adjustTotal v)"
      by blast
    from ok process_success_determined [of env' this input]
    obtain v' where v': "validateCodePlanningData input = Inr v'"
      and r': "fst (processCodePlanning env' this input)
               = successResult (snd (processCodePlanning env' this input)) (adjustTotal v')"
      by blast
    from v v' have "v' = v" by simp
    with r r' s show "fst (processCodePlanning env' this input) = fst (processCodePlanning env this input)"
      by simp
  }
  {
    fix v branched e
    assume "validateCodePlanningData input = Inr v
          \<and> registerBranch env
               (this\<lparr>reflectionHistory := reflectionHistory this @ [adjustTotal v]\<rparr>) (adjustTotal v)
              = Inr branched
          \<and> (formatCodeReflection env (adjustTotal v) = Inl e
              \<or> (\<exists>text. formatCodeReflection env (adjustTotal v) = Inr text
                         \<and> console_error env text = Some e))"
    then show "processCodePlanning env this input = (errorResult e, branched)"
      by (auto simp: processCodePlanning_def Let_def)
  }
qed

theorem C7_rendering_leaves_state_and_payload_witness:
  "numberToString ansiEnv = numberToString plainEnv
   \<and> snd (processCodePlanning ansiEnv initialServer callThree)
       = snd (processCodePlanning plainEnv initialServer callThree)
   \<and> isError (fst (processCodePlanning plainEnv initialServer callThree)) = None
   \<and> isError (fst (processCodePlanning ansiEnv initialServer callThree)) = None
   \<and> fst (processCodePlanning ansiEnv initialServer callThree)
       = fst (processCodePlanning plainEnv initialServer callThree)
   \<and> validateCodePlanningData callOpaqueRevision = Inr opaqueRevisionStep
   \<and> registerBranch plainEnv
        (initialServer\<lparr>reflectionHistory :=
           reflectionHistory initialServer @ [adjustTotal opaqueRevisionStep]\<rparr>)
        (adjustTotal opaqueRevisionStep)
       = Inr \<lparr>reflectionHistory = [opaqueRevisionStep], branches = []\<rparr>
   \<and> formatCodeReflection plainEnv (adjustTotal opaqueRevisionStep) = Inl (TypeError NotPrimitive)
   \<and> processCodePlanning plainEnv initialServer callOpaqueRevision
       = (errorResult (TypeError NotPrimitive),
          \<lparr>reflectionHistory = [opaqueRevisionStep], branches = []\<rparr>)"
proof -
  have n: "numberToString ansiEnv = numberToString plainEnv"
    by (simp add: ansiEnv_def plainEnv_def)
  have p: "processCodePlanning plainEnv initialServer callThree =
           (successResult \<lparr>reflectionHistory = [revisionStep], branches = []\<rparr> revisionStep,
            \<lparr>reflectionHistory = [revisionStep], branches = []\<rparr>)"
    by (rule process_callThree_env) (simp add: plainEnv_def)
  have q: "processCodePlanning ansiEnv initialServer callThree =
           (successResult \<lparr>reflectionHistory = [revisionStep], branches = []\<rparr> revisionStep,
            \<lparr>reflectionHistory = [revisionStep], branches = []\<rparr>)"
    by (rule process_callThree_env) (simp add: ansiEnv_def)
  have ok: "isError (fst (processCodePlanning plainEnv initialServer callThree)) = None"
    "isError (fst (processCodePlanning ansiEnv initialServer callThree)) = None"
    by (simp_all add: p q successResult_def)
  have v: "validateCodePlanningData callOpaqueRevision = Inr opaqueRevisionStep"
    by (rule validate_callOpaqueRevision)
  have r: "registerBranch plainEnv
        (initialServer\<lparr>reflectionHistory :=
           reflectionHistory initialServer @ [adjustTotal opaqueRevisionStep]\<rparr>)
        (adjustTotal opaqueRevisionStep)
       = Inr \<lparr>reflectionHistory = [opaqueRevisionStep], branches = []\<rparr>"
    by (simp add: adjust_opaqueRevisionStep registerBranch_opaque initialServer_def)
  have f: "formatCodeReflection plainEnv (adjustTotal opaqueRevisionStep) = Inl (TypeError NotPrimitive)"
    by (simp add: adjust_opaqueRevisionStep format_opaque)
  note inst = C7_rendering_leaves_state_and_payload [OF n, of initialServer]
  from inst [of callThree] ok
  have 1: "snd (processCodePlanning ansiEnv initialServer callThree)
       = snd (processCodePlanning plainEnv initialServer callThree)"
    and 2: "fst (processCodePlanning ansiEnv initialServer callThree)
       = fst (processCodePlanning plainEnv initialServer callThree)"
    by blast+
  from inst [of callOpaqueRevision] v r f
  have 3: "processCodePlanning plainEnv initialServer callOpaqueRevision
       = (errorResult (TypeError NotPrimitive),
          \<lparr>reflectionHistory = [opaqueRevisionStep], branches = []\<rparr>)"
    by blast
  show ?thesis using n 1 2 3 ok v r f by blast
qed

text \<open>
  C7 as the specification words it fails: the request below passes validation, its
  \<^verbatim>\<open>revisesStep\<close> is the object \<^verbatim>\<open>{"toString": 1}\<close>, the template literal cannot
  convert it to a string, the rendering throws and the call returns an error result.
\<close>

theorem C7_rendering_throws_counterexample:
  "validateCodePlanningData callOpaqueRevision = Inr opaqueRevisionStep
   \<and> formatCodeReflection plainEnv opaqueRevisionStep = Inl (TypeError NotPrimitive)
   \<and> processCodePlanning plainEnv initialServer callOpaqueRevision =
       (errorResult (TypeError NotPrimitive),
        \<lparr>reflectionHistory = [opaqueRevisionStep], branches = []\<rparr>)"
  by (simp add: validate_callOpaqueRevision format_opaque processCodePlanning_def
      adjust_opaqueRevisionStep registerBranch_opaque initialServer_def)

end
